theory Spec2Isabelle
  imports Main
begin

section \<open>Python values used by the server\<close>

text \<open>
  Python strings are \<open>string\<close>, Python's unbounded \<open>int\<close> is \<open>int\<close>, \<open>Optional[T]\<close> is
  \<open>T option\<close>. A \<open>datetime\<close> object and a URL object of the upstream library (the
  fields \<open>thumbnail_url\<close>, \<open>video_url\<close> and \<open>profile_pic_url\<close>, which the parsers pass
  through \<open>str\<close>) are always truthy, so each is a wrapper datatype: only \<open>None\<close> is
  falsy for an optional one. Identifiers, item types and texts are plain strings, for
  which the empty string is falsy as well.
\<close>

datatype datetime = Datetime int

datatype http_url = HttpUrl string

fun str_url :: "http_url \<Rightarrow> string" where
  "str_url (HttpUrl s) = s"

text \<open>Truth value of an \<open>Optional[str]\<close>: \<open>None\<close> and the empty string are falsy.\<close>

fun truthy :: "string option \<Rightarrow> bool" where
  "truthy None = False"
| "truthy (Some s) = (s \<noteq> [])"

text \<open>\<open>x or d\<close> for an \<open>Optional[str]\<close> \<open>x\<close> and a string \<open>d\<close>.\<close>

fun or_str :: "string option \<Rightarrow> string \<Rightarrow> string" where
  "or_str None d = d"
| "or_str (Some s) d = (if s \<noteq> [] then s else d)"

text \<open>\<open>getattr(obj, name, default)\<close> for an optional boolean attribute.\<close>

fun getattr_bool :: "bool option \<Rightarrow> bool \<Rightarrow> bool" where
  "getattr_bool None d = d"
| "getattr_bool (Some b) d = b"

text \<open>\<open>sep.join(xs)\<close>.\<close>

fun join :: "string \<Rightarrow> string list \<Rightarrow> string" where
  "join sep [] = []"
| "join sep [x] = x"
| "join sep (x # y # ys) = x @ sep @ join sep (y # ys)"

text \<open>\<open>s.lstrip(chars)\<close>: every leading character that occurs in \<open>chars\<close> is dropped.\<close>

definition lstrip :: "string \<Rightarrow> string \<Rightarrow> string" where
  "lstrip s chars = dropWhile (\<lambda>c. c \<in> set chars) s"

section \<open>Upstream records (the fields of the instagrapi types that the parsers read)\<close>

record ig_user =
  ig_pk :: string
  ig_username :: string
  ig_full_name :: "string option"
  ig_profile_pic_url :: "http_url option"
  ig_is_private :: "bool option"
  ig_is_verified :: "bool option"

record ig_media =
  thumbnail_url :: "http_url option"
  video_url :: "http_url option"

record ig_link =
  l_url :: "string option"
  l_title :: "string option"

record ig_message =
  m_id :: string
  m_user_id :: "string option"
  m_timestamp :: datetime
  m_item_type :: "string option"
  m_text :: "string option"
  m_media :: "ig_media option"
  m_link :: "ig_link option"

record ig_thread =
  t_id :: string
  t_pk :: string
  t_thread_title :: "string option"
  t_users :: "ig_user list"
  t_last_activity_at :: "datetime option"
  t_is_group :: "bool option"
  t_muted :: "bool option"
  t_has_newer :: "bool option"
  t_messages :: "ig_message list option"

section \<open>The canonical models (models/user\_models.py, models/message\_models.py)\<close>

record User =
  pk :: string
  username :: string
  full_name :: string
  profile_pic_url :: "string option"
  is_private :: bool
  is_verified :: bool

record UserShort =
  us_pk :: string
  us_username :: string
  us_full_name :: string
  us_profile_pic_url :: "string option"

record DirectMessage =
  dm_id :: string
  user_id :: "string option"
  timestamp :: datetime
  item_type :: string
  dm_text :: "string option"
  is_sent_by_viewer :: bool
  media_url :: "string option"
  media_type :: "string option"
  link_url :: "string option"
  link_title :: "string option"

record DirectThread =
  th_id :: string
  th_pk :: string
  th_thread_title :: string
  th_users :: "UserShort list"
  th_last_activity_at :: "datetime option"
  th_is_group :: bool
  th_is_muted :: bool
  th_has_unread :: bool
  th_messages :: "DirectMessage list"

record DirectThreadPreview =
  pv_id :: string
  pv_pk :: string
  pv_thread_title :: string
  pv_users :: "UserShort list"
  pv_last_activity_at :: "datetime option"
  pv_is_group :: bool
  pv_is_muted :: bool
  pv_has_unread :: bool
  last_message_text :: "string option"
  last_message_type :: "string option"
  last_message_timestamp :: "datetime option"

section \<open>The parsers (instagram/parsers.py)\<close>

definition parse_user :: "ig_user \<Rightarrow> User" where
  "parse_user user =
     \<lparr> pk = ig_pk user,
       username = ig_username user,
       full_name = or_str (ig_full_name user) [],
       profile_pic_url = map_option str_url (ig_profile_pic_url user),
       is_private = getattr_bool (ig_is_private user) False,
       is_verified = getattr_bool (ig_is_verified user) False \<rparr>"

definition parse_user_short :: "ig_user \<Rightarrow> UserShort" where
  "parse_user_short user =
     \<lparr> us_pk = ig_pk user,
       us_username = ig_username user,
       us_full_name = or_str (ig_full_name user) [],
       us_profile_pic_url = map_option str_url (ig_profile_pic_url user) \<rparr>"

definition parse_message :: "ig_message \<Rightarrow> string option \<Rightarrow> DirectMessage" where
  "parse_message msg logged_in_user_pk =
     (let sent =
            (if truthy logged_in_user_pk \<and> truthy (m_user_id msg)
             then m_user_id msg = logged_in_user_pk
             else False);
          mtype =
            (case m_media msg of
               None \<Rightarrow> None
             | Some md \<Rightarrow>
                 Some (case video_url md of Some v \<Rightarrow> ''video'' | None \<Rightarrow> ''photo''));
          murl =
            (case m_media msg of
               None \<Rightarrow> None
             | Some md \<Rightarrow>
                 Some (case video_url md of
                         Some v \<Rightarrow> str_url v
                       | None \<Rightarrow>
                           (case thumbnail_url md of
                              Some t \<Rightarrow> str_url t
                            | None \<Rightarrow> [])));
          is_link = (m_item_type msg = Some ''link'');
          lurl = (if is_link then (case m_link msg of Some l \<Rightarrow> l_url l | None \<Rightarrow> None)
                  else None);
          ltitle = (if is_link then (case m_link msg of Some l \<Rightarrow> l_title l | None \<Rightarrow> None)
                    else None)
      in \<lparr> dm_id = m_id msg,
           user_id = (if truthy (m_user_id msg) then m_user_id msg else None),
           timestamp = m_timestamp msg,
           item_type = or_str (m_item_type msg) ''unknown'',
           dm_text = m_text msg,
           is_sent_by_viewer = sent,
           media_url = murl,
           media_type = mtype,
           link_url = lurl,
           link_title = ltitle \<rparr>)"

text \<open>The title and the group flag are computed the same way by both thread parsers.\<close>

definition thread_title_of :: "ig_thread \<Rightarrow> UserShort list \<Rightarrow> string" where
  "thread_title_of thread users =
     (let thread_title = or_str (t_thread_title thread) []
      in if thread_title = [] \<and> users \<noteq> []
         then join '', '' (map us_username users)
         else thread_title)"

definition is_group_of :: "ig_thread \<Rightarrow> UserShort list \<Rightarrow> bool" where
  "is_group_of thread users =
     (case t_is_group thread of Some g \<Rightarrow> g | None \<Rightarrow> length users > 1)"

definition messages_or_empty :: "ig_thread \<Rightarrow> ig_message list" where
  "messages_or_empty thread = (case t_messages thread of None \<Rightarrow> [] | Some ms \<Rightarrow> ms)"

definition parse_thread :: "ig_thread \<Rightarrow> string option \<Rightarrow> DirectThread" where
  "parse_thread thread logged_in_user_pk =
     (let users = map parse_user_short (t_users thread);
          messages = map (\<lambda>m. parse_message m logged_in_user_pk) (messages_or_empty thread)
      in \<lparr> th_id = t_id thread,
           th_pk = t_pk thread,
           th_thread_title = thread_title_of thread users,
           th_users = users,
           th_last_activity_at = t_last_activity_at thread,
           th_is_group = is_group_of thread users,
           th_is_muted = getattr_bool (t_muted thread) False,
           th_has_unread = getattr_bool (t_has_newer thread) False,
           th_messages = messages \<rparr>)"

text \<open>The lookup table \<open>type_previews\<close>, in the order the source writes it.\<close>

definition type_previews :: "(string \<times> string) list" where
  "type_previews =
     [ (''media'', ''Photo''),
       (''video'', ''Video''),
       (''reel_share'', ''Shared Reel''),
       (''story_share'', ''Shared Story''),
       (''media_share'', ''Shared Post''),
       (''voice_media'', ''Voice Message''),
       (''animated_media'', ''GIF''),
       (''link'', ''Link''),
       (''like'', ''Liked'') ]"

text \<open>\<open>type_previews.get(k, "[" + k + "]")\<close>.\<close>

definition type_preview_get :: "string \<Rightarrow> string" where
  "type_preview_get k =
     (case map_of type_previews k of Some v \<Rightarrow> v | None \<Rightarrow> ''['' @ k @ '']'')"

definition parse_thread_preview :: "ig_thread \<Rightarrow> DirectThreadPreview" where
  "parse_thread_preview thread =
     (let users = map parse_user_short (t_users thread);
          ts0 = t_last_activity_at thread;
          (last_msg_text, last_msg_type, last_msg_timestamp) =
            (case messages_or_empty thread of
               [] \<Rightarrow> (None, None, ts0)
             | last_msg # rest \<Rightarrow>
                 (let ty = or_str (m_item_type last_msg) ''unknown'';
                      ts = (case ts0 of None \<Rightarrow> Some (m_timestamp last_msg) | Some t \<Rightarrow> Some t);
                      tx = (if truthy (m_text last_msg) then m_text last_msg
                            else Some (type_preview_get ty))
                  in (tx, Some ty, ts)))
      in \<lparr> pv_id = t_id thread,
           pv_pk = t_pk thread,
           pv_thread_title = thread_title_of thread users,
           pv_users = users,
           pv_last_activity_at = t_last_activity_at thread,
           pv_is_group = is_group_of thread users,
           pv_is_muted = getattr_bool (t_muted thread) False,
           pv_has_unread = getattr_bool (t_has_newer thread) False,
           last_message_text = last_msg_text,
           last_message_type = last_msg_type,
           last_message_timestamp = last_msg_timestamp \<rparr>)"

section \<open>Exceptions, the upstream capability and the process state\<close>

text \<open>
  An exception is its class and its message \<open>str(e)\<close>. The classes are the ones the
  server's \<open>except\<close> clauses tell apart; every other class is \<open>OtherException\<close>.
\<close>

datatype exn_class =
    LoginRequired
  | BadPassword
  | ChallengeRequired
  | TwoFactorRequired
  | PleaseWaitFewMinutes
  | ValueError
  | OtherException

type_synonym exn = "exn_class \<times> string"

text \<open>
  Every call the server makes on the \<open>instagrapi.Client\<close> object, with its arguments.
  The state keeps the calls in the order they were made, as a stand-in client that
  counts calls would.
\<close>

datatype call =
    Load_settings
  | Get_timeline_feed
  | Account_info
  | Client_login string string
  | Dump_settings
  | Direct_threads int
  | Direct_thread int int
  | Direct_answer int string
  | User_id_from_username string
  | Direct_send string "string list"
  | User_info_by_username string

text \<open>
  What lies outside the repository is a parameter: the answer of each client method
  (it may depend on all calls made before, so a session restored or a login done earlier
  can change it), Python's builtin \<open>int\<close> on a string, and the body of the \<open>try\<close>
  block of \<open>decrypt_password\<close> (key loading, base64 decoding, OAEP decryption,
  UTF-8 decoding; \<open>None\<close> when any of them raises). A method that returns nothing
  useful answers \<open>None\<close> for a normal return and \<open>Some e\<close> for a raised exception.
\<close>

record env =
  load_settings :: "call list \<Rightarrow> string \<Rightarrow> exn option"
  get_timeline_feed :: "call list \<Rightarrow> exn option"
  account_info :: "call list \<Rightarrow> exn + ig_user"
  client_login :: "call list \<Rightarrow> string \<Rightarrow> string \<Rightarrow> exn option"
  dump_settings :: "call list \<Rightarrow> exn + string"
  direct_threads :: "call list \<Rightarrow> int \<Rightarrow> exn + ig_thread list"
  direct_thread :: "call list \<Rightarrow> int \<Rightarrow> int \<Rightarrow> exn + ig_thread"
  direct_answer :: "call list \<Rightarrow> int \<Rightarrow> string \<Rightarrow> exn + ig_message"
  user_id_from_username :: "call list \<Rightarrow> string \<Rightarrow> exn + string"
  direct_send :: "call list \<Rightarrow> string \<Rightarrow> string list \<Rightarrow> exn + ig_message"
  user_info_by_username :: "call list \<Rightarrow> string \<Rightarrow> exn + ig_user"
  int_of :: "string \<Rightarrow> exn + int"
  private_key_decrypt :: "string \<Rightarrow> string option"

text \<open>
  The mutable state: \<open>InstagramClient._logged_in_user\<close>, the content of
  \<open>SESSION_FILE\<close> (absent when the file does not exist) and the calls made so far.
\<close>

record state =
  logged_in_user :: "User option"
  session_file :: "string option"
  calls :: "call list"

definition record_call :: "call \<Rightarrow> state \<Rightarrow> state" where
  "record_call c s = s\<lparr>calls := calls s @ [c]\<rparr>"

section \<open>Session persistence (instagram/session.py)\<close>

definition save_session :: "env \<Rightarrow> state \<Rightarrow> state" where
  "save_session e s =
     (let s1 = record_call Dump_settings s
      in case dump_settings e (calls s) of
           Inr blob \<Rightarrow> s1\<lparr>session_file := Some blob\<rparr>
         | Inl ex \<Rightarrow> s1)"

definition load_session :: "env \<Rightarrow> state \<Rightarrow> bool \<times> state" where
  "load_session e s =
     (case session_file s of
        None \<Rightarrow> (False, s)
      | Some blob \<Rightarrow>
          (case load_settings e (calls s) blob of
             None \<Rightarrow> (True, record_call Load_settings s)
           | Some ex \<Rightarrow> (False, record_call Load_settings s)))"

section \<open>Authentication (instagram/auth.py)\<close>

text \<open>The \<open>except\<close> clauses of the fresh login, in the source's order.\<close>

definition login_failure :: "exn \<Rightarrow> bool \<times> string option \<times> User option" where
  "login_failure ex =
     (case fst ex of
        BadPassword \<Rightarrow> (False, Some ''Invalid password'', None)
      | ChallengeRequired \<Rightarrow>
          (False,
           Some ''Challenge required - please verify your account in the Instagram app'',
           None)
      | TwoFactorRequired \<Rightarrow>
          (False, Some ''Two-factor authentication required - not yet supported'', None)
      | PleaseWaitFewMinutes \<Rightarrow>
          (False, Some ''Rate limited - please wait a few minutes and try again'', None)
      | _ \<Rightarrow> (False, Some (snd ex), None))"

text \<open>
  The block after \<open># Fresh login\<close>; both \<open>except\<close> clauses of the restore block
  and a failed \<open>load_session\<close> fall through to it.
\<close>

definition fresh_login ::
  "env \<Rightarrow> string \<Rightarrow> string \<Rightarrow> state \<Rightarrow> (bool \<times> string option \<times> User option) \<times> state" where
  "fresh_login e uname passwd s =
     (let s1 = record_call (Client_login uname passwd) s
      in case client_login e (calls s) uname passwd of
           Some ex \<Rightarrow> (login_failure ex, s1)
         | None \<Rightarrow>
             (let s2 = record_call Account_info s1
              in case account_info e (calls s1) of
                   Inl ex \<Rightarrow> (login_failure ex, s2)
                 | Inr user_info \<Rightarrow>
                     ((True, None, Some (parse_user user_info)), save_session e s2)))"

definition auth_login ::
  "env \<Rightarrow> string \<Rightarrow> string \<Rightarrow> state \<Rightarrow> (bool \<times> string option \<times> User option) \<times> state" where
  "auth_login e uname passwd s =
     (case load_session e s of
        (False, s0) \<Rightarrow> fresh_login e uname passwd s0
      | (True, s0) \<Rightarrow>
          (let s1 = record_call Get_timeline_feed s0
           in case get_timeline_feed e (calls s0) of
                Some ex \<Rightarrow> fresh_login e uname passwd s1
              | None \<Rightarrow>
                  (let s2 = record_call Account_info s1
                   in case account_info e (calls s1) of
                        Inl ex \<Rightarrow> fresh_login e uname passwd s2
                      | Inr user_info \<Rightarrow>
                          ((True, None, Some (parse_user user_info)), s2))))"

section \<open>Direct message operations (instagram/messages.py)\<close>

definition msg_get_inbox ::
  "env \<Rightarrow> User option \<Rightarrow> int \<Rightarrow> state \<Rightarrow> (exn + DirectThreadPreview list) \<times> state" where
  "msg_get_inbox e user amount s =
     (case user of
        None \<Rightarrow> (Inl (LoginRequired, ''Not logged in''), s)
      | Some u \<Rightarrow>
          (let s1 = record_call (Direct_threads amount) s
           in case direct_threads e (calls s) amount of
                Inl ex \<Rightarrow> (Inl ex, s1)
              | Inr threads \<Rightarrow> (Inr (map parse_thread_preview threads), s1)))"

definition msg_get_thread ::
  "env \<Rightarrow> User option \<Rightarrow> string \<Rightarrow> int \<Rightarrow> state \<Rightarrow> (exn + DirectThread) \<times> state" where
  "msg_get_thread e user thread_id amount s =
     (case user of
        None \<Rightarrow> (Inl (LoginRequired, ''Not logged in''), s)
      | Some u \<Rightarrow>
          (case int_of e thread_id of
             Inl ex \<Rightarrow> (Inl ex, s)
           | Inr n \<Rightarrow>
               (let s1 = record_call (Direct_thread n amount) s
                in case direct_thread e (calls s) n amount of
                     Inl ex \<Rightarrow> (Inl ex, s1)
                   | Inr thread \<Rightarrow> (Inr (parse_thread thread (Some (pk u))), s1))))"

definition msg_send_message ::
  "env \<Rightarrow> User option \<Rightarrow> string \<Rightarrow> string \<Rightarrow> state \<Rightarrow> (exn + DirectMessage) \<times> state" where
  "msg_send_message e user thread_id txt s =
     (case user of
        None \<Rightarrow> (Inl (LoginRequired, ''Not logged in''), s)
      | Some u \<Rightarrow>
          (case int_of e thread_id of
             Inl ex \<Rightarrow> (Inl ex, s)
           | Inr n \<Rightarrow>
               (let s1 = record_call (Direct_answer n txt) s
                in case direct_answer e (calls s) n txt of
                     Inl ex \<Rightarrow> (Inl ex, s1)
                   | Inr result \<Rightarrow> (Inr (parse_message result (Some (pk u))), s1))))"

definition msg_send_message_to_user ::
  "env \<Rightarrow> User option \<Rightarrow> string \<Rightarrow> string \<Rightarrow> state \<Rightarrow> (exn + DirectMessage) \<times> state" where
  "msg_send_message_to_user e user uname txt s =
     (case user of
        None \<Rightarrow> (Inl (LoginRequired, ''Not logged in''), s)
      | Some u \<Rightarrow>
          (let s1 = record_call (User_id_from_username uname) s
           in case user_id_from_username e (calls s) uname of
                Inl ex \<Rightarrow> (Inl ex, s1)
              | Inr uid \<Rightarrow>
                  (let s2 = record_call (Direct_send txt [uid]) s1
                   in case direct_send e (calls s1) txt [uid] of
                        Inl ex \<Rightarrow> (Inl ex, s2)
                      | Inr result \<Rightarrow> (Inr (parse_message result (Some (pk u))), s2))))"

definition msg_search_user ::
  "env \<Rightarrow> User option \<Rightarrow> string \<Rightarrow> state \<Rightarrow> (exn + User option) \<times> state" where
  "msg_search_user e user uname s =
     (case user of
        None \<Rightarrow> (Inl (LoginRequired, ''Not logged in''), s)
      | Some u \<Rightarrow>
          (let s1 = record_call (User_info_by_username uname) s
           in case user_info_by_username e (calls s) uname of
                Inl ex \<Rightarrow> (Inr None, s1)
              | Inr user_info \<Rightarrow> (Inr (Some (parse_user user_info)), s1)))"

section \<open>The client wrapper (instagram/client.py)\<close>

definition InstagramClient_login ::
  "env \<Rightarrow> string \<Rightarrow> string \<Rightarrow> state \<Rightarrow> (bool \<times> string option) \<times> state" where
  "InstagramClient_login e uname passwd s =
     (case auth_login e uname passwd s of
        ((success, error, user), s1) \<Rightarrow>
          ((success, error), if success then s1\<lparr>logged_in_user := user\<rparr> else s1))"

definition is_authenticated :: "state \<Rightarrow> bool" where
  "is_authenticated s = (logged_in_user s \<noteq> None)"


definition InstagramClient_get_inbox ::
  "env \<Rightarrow> int \<Rightarrow> state \<Rightarrow> (exn + DirectThreadPreview list) \<times> state" where
  "InstagramClient_get_inbox e amount s = msg_get_inbox e (logged_in_user s) amount s"

definition InstagramClient_get_thread ::
  "env \<Rightarrow> string \<Rightarrow> int \<Rightarrow> state \<Rightarrow> (exn + DirectThread) \<times> state" where
  "InstagramClient_get_thread e thread_id amount s =
     msg_get_thread e (logged_in_user s) thread_id amount s"

definition InstagramClient_send_message ::
  "env \<Rightarrow> string \<Rightarrow> string \<Rightarrow> state \<Rightarrow> (exn + DirectMessage) \<times> state" where
  "InstagramClient_send_message e thread_id txt s =
     msg_send_message e (logged_in_user s) thread_id txt s"

definition InstagramClient_send_message_to_user ::
  "env \<Rightarrow> string \<Rightarrow> string \<Rightarrow> state \<Rightarrow> (exn + DirectMessage) \<times> state" where
  "InstagramClient_send_message_to_user e uname txt s =
     msg_send_message_to_user e (logged_in_user s) uname txt s"

definition InstagramClient_search_user ::
  "env \<Rightarrow> string \<Rightarrow> state \<Rightarrow> (exn + User option) \<times> state" where
  "InstagramClient_search_user e uname s = msg_search_user e (logged_in_user s) uname s"

section \<open>Credential decryption (crypto.py)\<close>


section \<open>The request handlers (main.py)\<close>

text \<open>
  A handler returns its response model, raises \<open>HTTPException(status_code, detail)\<close>,
  or lets another exception escape to the application's exception handlers.
\<close>

datatype 'a outcome = Return 'a | HTTPException nat string | Raise exn



datatype InboxResponse = InboxResponse bool "DirectThreadPreview list" "string option"

datatype ThreadResponse = ThreadResponse bool "DirectThread option" "string option"

datatype SendMessageResponse = SendMessageResponse bool "DirectMessage option" "string option"


definition get_inbox :: "env \<Rightarrow> int \<Rightarrow> state \<Rightarrow> InboxResponse outcome \<times> state" where
  "get_inbox e limit0 s =
     (let limit = min (max limit0 1) 100
      in case InstagramClient_get_inbox e limit s of
           (Inr threads, s1) \<Rightarrow> (Return (InboxResponse True threads None), s1)
         | (Inl ex, s1) \<Rightarrow>
             if fst ex = LoginRequired then (Raise ex, s1)
             else (Return (InboxResponse False [] (Some (snd ex))), s1))"

definition get_thread ::
  "env \<Rightarrow> string \<Rightarrow> int \<Rightarrow> state \<Rightarrow> ThreadResponse outcome \<times> state" where
  "get_thread e thread_id limit0 s =
     (let limit = min (max limit0 1) 100
      in case InstagramClient_get_thread e thread_id limit s of
           (Inr thread, s1) \<Rightarrow> (Return (ThreadResponse True (Some thread) None), s1)
         | (Inl ex, s1) \<Rightarrow>
             if fst ex = LoginRequired then (Raise ex, s1)
             else (Return (ThreadResponse False None (Some (snd ex))), s1))"

definition send_message_to_thread ::
  "env \<Rightarrow> string \<Rightarrow> string \<Rightarrow> state \<Rightarrow> SendMessageResponse outcome \<times> state" where
  "send_message_to_thread e thread_id txt s =
     (case InstagramClient_send_message e thread_id txt s of
        (Inr message, s1) \<Rightarrow> (Return (SendMessageResponse True (Some message) None), s1)
      | (Inl ex, s1) \<Rightarrow>
          if fst ex = LoginRequired then (Raise ex, s1)
          else (Return (SendMessageResponse False None (Some (snd ex))), s1))"

definition send_message_to_user ::
  "env \<Rightarrow> string \<Rightarrow> string \<Rightarrow> state \<Rightarrow> SendMessageResponse outcome \<times> state" where
  "send_message_to_user e uname0 txt s =
     (let uname = lstrip uname0 ''@''
      in case InstagramClient_send_message_to_user e uname txt s of
           (Inr message, s1) \<Rightarrow> (Return (SendMessageResponse True (Some message) None), s1)
         | (Inl ex, s1) \<Rightarrow>
             if fst ex = LoginRequired then (Raise ex, s1)
             else (Return (SendMessageResponse False None (Some (snd ex))), s1))"

text \<open>The success value of \<open>search_user\<close> is the dictionary with keys \<open>success\<close>, \<open>user\<close>.\<close>

definition search_user :: "env \<Rightarrow> string \<Rightarrow> state \<Rightarrow> (bool \<times> User) outcome \<times> state" where
  "search_user e uname0 s =
     (let uname = lstrip uname0 ''@''
      in case InstagramClient_search_user e uname s of
           (Inr (Some found), s1) \<Rightarrow> (Return (True, found), s1)
         | (Inr None, s1) \<Rightarrow>
             (HTTPException 404 (''User '' @ [CHR 0x27] @ uname @ [CHR 0x27] @ '' not found''),
              s1)
         | (Inl ex, s1) \<Rightarrow>
             if fst ex = LoginRequired then (Raise ex, s1)
             else (HTTPException 500 (snd ex), s1))"

section \<open>The specification's wording, for comparison with the code\<close>

text \<open>
  These four definitions follow the sentences of the specification, not the source; the
  theorems below compare each with what the code computes.
\<close>

text \<open>
  ``\<open>is_sent_by_viewer\<close> is true iff the upstream sender identifier equals the current
  Identity's identifier as strings'', false when there is no Identity.
\<close>

definition spec_is_sent_by_viewer :: "string option \<Rightarrow> string option \<Rightarrow> bool" where
  "spec_is_sent_by_viewer identity sender =
     (case identity of None \<Rightarrow> False | Some p \<Rightarrow> sender = Some p)"

text \<open>
  ``An unrecognized or missing item-type tag normalizes to \<open>"unknown"\<close>''. The tags the
  repository names are those of the field description of \<open>DirectMessage.item_type\<close>
  and the keys of \<open>type_previews\<close>.
\<close>

definition spec_recognized_item_types :: "string list" where
  "spec_recognized_item_types = ''text'' # ''unknown'' # map fst type_previews"

definition spec_item_type :: "string option \<Rightarrow> string" where
  "spec_item_type tag =
     (case tag of
        None \<Rightarrow> ''unknown''
      | Some t \<Rightarrow> if t \<in> set spec_recognized_item_types then t else ''unknown'')"


text \<open>``handle normalized by stripping a leading \<open>"@"\<close>'': one character, when present.\<close>

definition spec_strip_leading_at :: "string \<Rightarrow> string" where
  "spec_strip_leading_at handle =
     (case handle of [] \<Rightarrow> [] | c # rest \<Rightarrow> if c = CHR ''@'' then rest else handle)"

section \<open>A stand-in upstream capability and sample records\<close>

definition alice_account :: ig_user where
  "alice_account =
     \<lparr> ig_pk = ''4815162342'', ig_username = ''alice'', ig_full_name = Some ''Alice A.'',
       ig_profile_pic_url = None, ig_is_private = Some False, ig_is_verified = None \<rparr>"

definition bob_account :: ig_user where
  "bob_account =
     \<lparr> ig_pk = ''99'', ig_username = ''bob'', ig_full_name = None,
       ig_profile_pic_url = Some (HttpUrl ''https://cdn.example/bob.jpg''),
       ig_is_private = None, ig_is_verified = None \<rparr>"

definition photo_message :: ig_message where
  "photo_message =
     \<lparr> m_id = ''3001'', m_user_id = Some ''99'', m_timestamp = Datetime 1700000300,
       m_item_type = Some ''media'', m_text = None,
       m_media = Some \<lparr> thumbnail_url = Some (HttpUrl ''https://cdn.example/t.jpg''),
                        video_url = None \<rparr>,
       m_link = None \<rparr>"

definition text_message :: ig_message where
  "text_message =
     \<lparr> m_id = ''3002'', m_user_id = Some ''4815162342'', m_timestamp = Datetime 1700000400,
       m_item_type = Some ''text'', m_text = Some ''hello'',
       m_media = None, m_link = None \<rparr>"

definition sample_thread :: ig_thread where
  "sample_thread =
     \<lparr> t_id = ''340282366841710300949128'', t_pk = ''178612312342'',
       t_thread_title = None, t_users = [bob_account],
       t_last_activity_at = None, t_is_group = Some False, t_muted = None,
       t_has_newer = None, t_messages = Some [photo_message, text_message] \<rparr>"


text \<open>
  The stand-in accepts any saved session, knows the account \<open>alice\<close> with the password
  \<open>hunter2\<close>, and decrypts the one payload \<open>QUJD\<close> to that password.
\<close>

definition stub_env :: env where
  "stub_env =
     \<lparr> load_settings = (\<lambda>h blob. None),
       get_timeline_feed = (\<lambda>h. None),
       account_info = (\<lambda>h. Inr alice_account),
       client_login =
         (\<lambda>h u p. if u = ''alice'' \<and> p = ''hunter2'' then None
                  else Some (BadPassword, ''bad_password'')),
       dump_settings = (\<lambda>h. Inr ''fresh-session''),
       direct_threads = (\<lambda>h n. Inr [sample_thread]),
       direct_thread = (\<lambda>h i n. Inr sample_thread),
       direct_answer = (\<lambda>h i t. Inr text_message),
       user_id_from_username =
         (\<lambda>h u. if u = ''bob'' then Inr ''99'' else Inl (OtherException, ''user not found'')),
       direct_send = (\<lambda>h t ids. Inr text_message),
       user_info_by_username =
         (\<lambda>h u. if u = ''bob'' then Inr bob_account
                else Inl (OtherException, ''user not found'')),
       int_of =
         (\<lambda>t. if t = ''7'' then Inr 7 else Inl (ValueError, ''invalid literal for int()'')),
       private_key_decrypt = (\<lambda>c. if c = ''QUJD'' then Some ''hunter2'' else None) \<rparr>"

definition logged_out :: state where
  "logged_out = \<lparr> logged_in_user = None, session_file = None, calls = [] \<rparr>"

definition saved_session :: state where
  "saved_session = \<lparr> logged_in_user = None, session_file = Some ''old-session'', calls = [] \<rparr>"

definition logged_in :: state where
  "logged_in =
     \<lparr> logged_in_user = Some (parse_user bob_account), session_file = None, calls = [] \<rparr>"

section \<open>Message normalization\<close>

text \<open>
  Claim C4, as amended. The flag \<open>is_sent_by_viewer\<close> of the normalized message is true
  exactly when the identifier of the current Identity is present and not empty and the
  sender identifier of the upstream record is that same string. The comparison is one of
  strings and never of numbers. The flag is false whenever the Identity identifier is
  absent, and also when it is the empty string.
\<close>

theorem sent_by_viewer_nonempty:
  "is_sent_by_viewer (parse_message msg identity) =
     (case identity of
        None \<Rightarrow> False
      | Some p \<Rightarrow> p \<noteq> [] \<and> m_user_id msg = Some p)"
  by (cases identity; cases "m_user_id msg") (auto simp: parse_message_def Let_def)

text \<open>
  At a record sent by the sample viewer the flag is set, and it is not set for an
  identifier that denotes the same number with another spelling.
\<close>

theorem sent_by_viewer_nonempty_witness:
  "is_sent_by_viewer (parse_message text_message (Some ''4815162342'')) \<and>
   \<not> is_sent_by_viewer (parse_message text_message (Some ''04815162342'')) \<and>
   \<not> is_sent_by_viewer (parse_message text_message None)"
  using sent_by_viewer_nonempty [of text_message "Some ''4815162342''"]
    sent_by_viewer_nonempty [of text_message "Some ''04815162342''"]
    sent_by_viewer_nonempty [of text_message None]
  by (simp add: text_message_def)

text \<open>
  Claim C4 as stated fails where both identifiers are the empty string: they are present
  and equal as strings, and the guard \<open>if logged_in_user_pk and msg.user_id\<close> leaves the
  flag false.
\<close>

theorem sent_by_viewer_counterexample:
  "is_sent_by_viewer
     (parse_message
        \<lparr> m_id = ''1'', m_user_id = Some '''', m_timestamp = Datetime 0,
          m_item_type = Some ''text'', m_text = Some ''hi'', m_media = None, m_link = None \<rparr>
        (Some ''''))
   \<noteq> spec_is_sent_by_viewer (Some '''') (Some '''')"
  by (simp add: parse_message_def spec_is_sent_by_viewer_def)

text \<open>
  Claim C5. The fields \<open>media_type\<close> and \<open>media_url\<close> of the normalized message are
  populated if and only if the upstream record carries a media reference. When it does,
  \<open>media_type\<close> is \<open>video\<close> if a video URL is present and \<open>photo\<close> otherwise, and
  \<open>media_url\<close> is the video URL, else the thumbnail URL, else the empty string, so it
  is never absent.
\<close>

theorem media_fields:
  "(media_type (parse_message msg identity) \<noteq> None \<longleftrightarrow> m_media msg \<noteq> None) \<and>
   (media_url (parse_message msg identity) \<noteq> None \<longleftrightarrow> m_media msg \<noteq> None) \<and>
   (\<forall>md. m_media msg = Some md \<longrightarrow>
      media_type (parse_message msg identity) =
        Some (if video_url md \<noteq> None then ''video'' else ''photo'') \<and>
      media_url (parse_message msg identity) =
        Some (case video_url md of
                Some v \<Rightarrow> str_url v
              | None \<Rightarrow> (case thumbnail_url md of Some t \<Rightarrow> str_url t | None \<Rightarrow> '''')))"
  by (auto simp: parse_message_def Let_def split: option.splits)

text \<open>A media record with a thumbnail URL only is a photo with that URL.\<close>

theorem media_fields_witness:
  "m_media photo_message =
     Some \<lparr> thumbnail_url = Some (HttpUrl ''https://cdn.example/t.jpg''), video_url = None \<rparr> \<and>
   media_type (parse_message photo_message None) = Some ''photo'' \<and>
   media_url (parse_message photo_message None) = Some ''https://cdn.example/t.jpg''"
  using media_fields [of photo_message None]
  by (simp add: photo_message_def)

text \<open>
  Claim C6, as amended. A missing or empty item-type tag normalizes to \<open>unknown\<close>;
  every other tag, recognized or not, is passed through unchanged.
\<close>

theorem item_type_passthrough:
  "item_type (parse_message msg identity) =
     (case m_item_type msg of
        None \<Rightarrow> ''unknown''
      | Some t \<Rightarrow> if t = [] then ''unknown'' else t)"
  by (simp add: parse_message_def Let_def split: option.splits)

theorem item_type_passthrough_witness:
  "item_type (parse_message photo_message None) = ''media'' \<and>
   item_type (parse_message (photo_message\<lparr>m_item_type := None\<rparr>) None) = ''unknown''"
  using item_type_passthrough [of photo_message None]
    item_type_passthrough [of "photo_message\<lparr>m_item_type := None\<rparr>" None]
  by (simp add: photo_message_def)

text \<open>
  Claim C6 as stated fails at the tag \<open>poll\<close>, which is none of the tags the repository
  names: the normalized item type is \<open>poll\<close>, not \<open>unknown\<close>.
\<close>

theorem item_type_counterexample:
  "item_type
     (parse_message
        \<lparr> m_id = ''1'', m_user_id = Some ''99'', m_timestamp = Datetime 0,
          m_item_type = Some ''poll'', m_text = None, m_media = None, m_link = None \<rparr>
        None)
   \<noteq> spec_item_type (Some ''poll'')"
  by (simp add: parse_message_def spec_item_type_def spec_recognized_item_types_def
      type_previews_def)

section \<open>Preview synthesis\<close>





section \<open>Direct message operations without an Identity\<close>

text \<open>
  Claim C1. Each of the five operations (fetch inbox, fetch thread, send to an existing
  thread, send to a user by handle, search a user), invoked while no current Identity is
  set, fails with \<open>LoginRequired\<close> and leaves the state as it was; in particular the
  list of calls made on the upstream client is unchanged, so none of \<open>direct_threads\<close>,
  \<open>direct_thread\<close>, \<open>direct_answer\<close>, \<open>user_id_from_username\<close>, \<open>direct_send\<close>,
  \<open>user_info_by_username\<close> is attempted.
\<close>

theorem dm_operations_require_identity:
  assumes "logged_in_user s = None"
  shows "InstagramClient_get_inbox e amount s = (Inl (LoginRequired, ''Not logged in''), s) \<and>
         InstagramClient_get_thread e thread_id amount s =
           (Inl (LoginRequired, ''Not logged in''), s) \<and>
         InstagramClient_send_message e thread_id txt s =
           (Inl (LoginRequired, ''Not logged in''), s) \<and>
         InstagramClient_send_message_to_user e uname txt s =
           (Inl (LoginRequired, ''Not logged in''), s) \<and>
         InstagramClient_search_user e uname s =
           (Inl (LoginRequired, ''Not logged in''), s)"
  using assms
  by (simp add: InstagramClient_get_inbox_def InstagramClient_get_thread_def
      InstagramClient_send_message_def InstagramClient_send_message_to_user_def
      InstagramClient_search_user_def msg_get_inbox_def msg_get_thread_def
      msg_send_message_def msg_send_message_to_user_def msg_search_user_def)

text \<open>The five operations on the logged-out state of the stand-in.\<close>

theorem dm_operations_require_identity_witness:
  "logged_in_user logged_out = None \<and>
   InstagramClient_get_inbox stub_env 20 logged_out =
     (Inl (LoginRequired, ''Not logged in''), logged_out) \<and>
   InstagramClient_get_thread stub_env ''7'' 20 logged_out =
     (Inl (LoginRequired, ''Not logged in''), logged_out) \<and>
   InstagramClient_send_message stub_env ''7'' ''hi'' logged_out =
     (Inl (LoginRequired, ''Not logged in''), logged_out) \<and>
   InstagramClient_send_message_to_user stub_env ''bob'' ''hi'' logged_out =
     (Inl (LoginRequired, ''Not logged in''), logged_out) \<and>
   InstagramClient_search_user stub_env ''bob'' logged_out =
     (Inl (LoginRequired, ''Not logged in''), logged_out) \<and>
   calls logged_out = []"
proof -
  have h: "logged_in_user logged_out = None"
    by (simp add: logged_out_def)
  have c: "calls logged_out = []"
    by (simp add: logged_out_def)
  from dm_operations_require_identity [OF h, of stub_env 20 "''7''" "''hi''" "''bob''"] h c
  show ?thesis by simp
qed

section \<open>Request normalization in the handlers\<close>

text \<open>
  Claim C8. For every requested count \<open>n\<close>, the count passed to the inbox fetch and to
  the thread fetch is \<open>n\<close> clamped into the range from 1 to 100: 1 for \<open>n \<le> 1\<close>, 100 for
  \<open>n \<ge> 100\<close>, and \<open>n\<close> itself in between. The fetch is the only call the handler makes.
\<close>

theorem fetch_count_clamped:
  assumes "logged_in_user s = Some u"
  shows "calls (snd (get_inbox e n s)) =
           calls s @ [Direct_threads (if n \<le> 1 then 1 else if 100 \<le> n then 100 else n)] \<and>
         (\<forall>i. int_of e thread_id = Inr i \<longrightarrow>
            calls (snd (get_thread e thread_id n s)) =
              calls s @ [Direct_thread i (if n \<le> 1 then 1 else if 100 \<le> n then 100 else n)])"
proof -
  have clamp: "min (max n 1) 100 = (if n \<le> 1 then 1 else if 100 \<le> n then 100 else n)"
    by simp
  have inbox: "calls (snd (get_inbox e n s)) =
           calls s @ [Direct_threads (if n \<le> 1 then 1 else if 100 \<le> n then 100 else n)]"
    unfolding get_inbox_def InstagramClient_get_inbox_def msg_get_inbox_def Let_def clamp
    using assms by (simp add: record_call_def split: sum.splits)
  have thread: "\<forall>i. int_of e thread_id = Inr i \<longrightarrow>
            calls (snd (get_thread e thread_id n s)) =
              calls s @ [Direct_thread i (if n \<le> 1 then 1 else if 100 \<le> n then 100 else n)]"
    unfolding get_thread_def InstagramClient_get_thread_def msg_get_thread_def Let_def clamp
    using assms by (simp add: record_call_def split: sum.splits)
  from inbox thread show ?thesis by (rule conjI)
qed

text \<open>Requesting 0 fetches 1, requesting 500 fetches 100, requesting 20 fetches 20.\<close>

theorem fetch_count_clamped_witness:
  "logged_in_user logged_in = Some (parse_user bob_account) \<and>
   int_of stub_env ''7'' = Inr 7 \<and>
   calls (snd (get_inbox stub_env 0 logged_in)) = [Direct_threads 1] \<and>
   calls (snd (get_inbox stub_env 500 logged_in)) = [Direct_threads 100] \<and>
   calls (snd (get_inbox stub_env 20 logged_in)) = [Direct_threads 20] \<and>
   calls (snd (get_thread stub_env ''7'' 0 logged_in)) = [Direct_thread 7 1] \<and>
   calls (snd (get_thread stub_env ''7'' 500 logged_in)) = [Direct_thread 7 100]"
proof -
  have h: "logged_in_user logged_in = Some (parse_user bob_account)"
    by (simp add: logged_in_def)
  have i: "int_of stub_env ''7'' = Inr 7"
    by (simp add: stub_env_def)
  have c: "calls logged_in = []"
    by (simp add: logged_in_def)
  from fetch_count_clamped [OF h, of stub_env 0 "''7''"]
    fetch_count_clamped [OF h, of stub_env 500 "''7''"]
    fetch_count_clamped [OF h, of stub_env 20 "''7''"] h i c
  show ?thesis by simp
qed

text \<open>Stripping \<open>@\<close> removes the whole run of leading \<open>@\<close> characters.\<close>

lemma takeWhile_eq_replicate:
  "takeWhile (\<lambda>c. c = x) h = replicate (length h - length (dropWhile (\<lambda>c. c = x) h)) x"
proof (induction h)
  case Nil
  show ?case by simp
next
  case (Cons a h)
  have "length (dropWhile (\<lambda>c. c = x) h) \<le> length h"
    by (rule length_dropWhile_le)
  with Cons show ?case
    by (simp add: Suc_diff_le)
qed

lemma lstrip_at: "lstrip h ''@'' = dropWhile (\<lambda>c. c = CHR ''@'') h"
  by (simp add: lstrip_def)

lemma lstrip_at_decompose:
  "h = replicate (length h - length (lstrip h ''@'')) (CHR ''@'') @ lstrip h ''@''"
proof -
  have "h = takeWhile (\<lambda>c. c = CHR ''@'') h @ dropWhile (\<lambda>c. c = CHR ''@'') h"
    by simp
  then show ?thesis
    unfolding lstrip_at
    using takeWhile_eq_replicate [of "CHR ''@''" h] by simp
qed

lemma lstrip_at_no_leading_at: "take 1 (lstrip h ''@'') \<noteq> ''@''"
  unfolding lstrip_at by (induction h) simp_all

text \<open>
  Claim C9, as amended. For every send-to-user and user-search request of an
  authenticated client, the handle used for the upstream lookup (the first call the
  handler makes) is the given handle with all its leading \<open>@\<close> characters removed: the
  given handle is some number of \<open>@\<close> followed by the handle used, and the handle used
  does not begin with \<open>@\<close>. A handle without a leading \<open>@\<close> is therefore used unchanged.
\<close>

theorem handle_lstrip_all_at:
  assumes "logged_in_user s = Some u"
  shows "calls (snd (search_user e h s)) = calls s @ [User_info_by_username (lstrip h ''@'')] \<and>
         take (Suc (length (calls s))) (calls (snd (send_message_to_user e h txt s))) =
           calls s @ [User_id_from_username (lstrip h ''@'')] \<and>
         h = replicate (length h - length (lstrip h ''@'')) (CHR ''@'') @ lstrip h ''@'' \<and>
         take 1 (lstrip h ''@'') \<noteq> ''@''"
proof -
  have search: "calls (snd (search_user e h s)) =
      calls s @ [User_info_by_username (lstrip h ''@'')]"
    unfolding search_user_def InstagramClient_search_user_def msg_search_user_def Let_def
    using assms by (simp add: record_call_def split: sum.splits option.splits)
  have send: "take (Suc (length (calls s))) (calls (snd (send_message_to_user e h txt s))) =
      calls s @ [User_id_from_username (lstrip h ''@'')]"
    unfolding send_message_to_user_def InstagramClient_send_message_to_user_def
      msg_send_message_to_user_def Let_def
    using assms by (simp add: record_call_def split: sum.splits)
  show ?thesis
    using search send lstrip_at_decompose [of h] lstrip_at_no_leading_at [of h]
    by (intro conjI)
qed

text \<open>The handles \<open>@bob\<close>, \<open>bob\<close> and \<open>@@bob\<close> all look up \<open>bob\<close>.\<close>

theorem handle_lstrip_all_at_witness:
  "logged_in_user logged_in = Some (parse_user bob_account) \<and>
   calls (snd (search_user stub_env ''@bob'' logged_in)) = [User_info_by_username ''bob''] \<and>
   calls (snd (search_user stub_env ''bob'' logged_in)) = [User_info_by_username ''bob''] \<and>
   calls (snd (search_user stub_env ''@@bob'' logged_in)) = [User_info_by_username ''bob''] \<and>
   take 1 (calls (snd (send_message_to_user stub_env ''@bob'' ''hi'' logged_in))) =
     [User_id_from_username ''bob'']"
proof -
  have h: "logged_in_user logged_in = Some (parse_user bob_account)"
    by (simp add: logged_in_def)
  have c: "calls logged_in = []"
    by (simp add: logged_in_def)
  have l: "lstrip ''@bob'' ''@'' = ''bob''" "lstrip ''bob'' ''@'' = ''bob''"
    "lstrip ''@@bob'' ''@'' = ''bob''"
    by (simp_all add: lstrip_def)
  from handle_lstrip_all_at [OF h, of stub_env "''@bob''" "''hi''"]
    handle_lstrip_all_at [OF h, of stub_env "''bob''" "''hi''"]
    handle_lstrip_all_at [OF h, of stub_env "''@@bob''" "''hi''"] h c l
  show ?thesis by simp
qed

text \<open>
  Claim C9 as stated fails at the handle \<open>@@bob\<close>: with one leading \<open>@\<close> removed the
  lookup would be for \<open>@bob\<close>, and the handler never makes that call.
\<close>

theorem handle_strip_counterexample:
  "User_info_by_username (spec_strip_leading_at ''@@bob'')
     \<notin> set (calls (snd (search_user stub_env ''@@bob'' logged_in)))"
  by (simp add: spec_strip_leading_at_def search_user_def InstagramClient_search_user_def
      msg_search_user_def lstrip_def record_call_def logged_in_def stub_env_def)

section \<open>Login\<close>

text \<open>
  What the login flow may touch: it never writes \<open>_logged_in_user\<close>, and the calls it
  adds are session loading, the validity probe, the fresh login with the given
  credentials, and the session save.
\<close>

lemma save_session_frame:
  "logged_in_user (save_session e s) = logged_in_user s"
  "calls (save_session e s) = calls s @ [Dump_settings]"
  by (simp_all add: save_session_def record_call_def Let_def split: sum.splits)

lemma load_session_frame:
  "logged_in_user (snd (load_session e s)) = logged_in_user s"
  "\<exists>xs. calls (snd (load_session e s)) = calls s @ xs \<and> set xs \<subseteq> {Load_settings}"
  by (auto simp: load_session_def record_call_def split: option.splits)

lemma fresh_login_frame:
  "logged_in_user (snd (fresh_login e u p s)) = logged_in_user s"
  "\<exists>xs. calls (snd (fresh_login e u p s)) = calls s @ xs \<and>
        set xs \<subseteq> {Client_login u p, Account_info, Dump_settings}"
  by (auto simp: fresh_login_def record_call_def Let_def save_session_frame
      split: bool.splits option.splits sum.splits)

lemma auth_login_user:
  "logged_in_user (snd (auth_login e u p s)) = logged_in_user s"
proof (cases "load_session e s")
  case (Pair ok s0)
  then have "logged_in_user s0 = logged_in_user s"
    using load_session_frame(1) [of e s] by simp
  with Pair show ?thesis
    by (simp add: auth_login_def Let_def record_call_def fresh_login_frame(1)
        split: bool.splits option.splits sum.splits)
qed





text \<open>
  Claim C3. When a saved session exists, is restored successfully and the validity
  probe (\<open>get_timeline_feed\<close>, then \<open>account_info\<close>) succeeds, login returns success,
  the Identity installed is the one parsed from the probe response, the only calls made
  are the restore and the two probe calls (so the password is never sent upstream and
  the session save is not invoked), and the stored session is unchanged.
\<close>

theorem restored_session_login:
  assumes "session_file s = Some blob"
    and "load_settings e (calls s) blob = None"
    and "get_timeline_feed e (calls s @ [Load_settings]) = None"
    and "account_info e (calls s @ [Load_settings, Get_timeline_feed]) = Inr user_info"
  shows "InstagramClient_login e uname passwd s =
           ((True, None),
            s\<lparr>logged_in_user := Some (parse_user user_info),
               calls := calls s @ [Load_settings, Get_timeline_feed, Account_info]\<rparr>) \<and>
         session_file (snd (InstagramClient_login e uname passwd s)) = session_file s \<and>
         Dump_settings
           \<notin> set (drop (length (calls s)) (calls (snd (InstagramClient_login e uname passwd s)))) \<and>
         Client_login uname passwd
           \<notin> set (drop (length (calls s)) (calls (snd (InstagramClient_login e uname passwd s))))"
proof -
  have run: "InstagramClient_login e uname passwd s =
           ((True, None),
            s\<lparr>logged_in_user := Some (parse_user user_info),
               calls := calls s @ [Load_settings, Get_timeline_feed, Account_info]\<rparr>)"
    using assms
    by (simp add: InstagramClient_login_def auth_login_def load_session_def record_call_def)
  show ?thesis
    unfolding run by simp
qed

text \<open>With a saved session the stand-in logs in even with a wrong password.\<close>

theorem restored_session_login_witness:
  "session_file saved_session = Some ''old-session'' \<and>
   load_settings stub_env (calls saved_session) ''old-session'' = None \<and>
   get_timeline_feed stub_env (calls saved_session @ [Load_settings]) = None \<and>
   account_info stub_env (calls saved_session @ [Load_settings, Get_timeline_feed]) =
     Inr alice_account \<and>
   InstagramClient_login stub_env ''alice'' ''wrong'' saved_session =
     ((True, None),
      \<lparr>logged_in_user = Some (parse_user alice_account),
       session_file = Some ''old-session'',
       calls = [Load_settings, Get_timeline_feed, Account_info]\<rparr>)"
proof -
  have a: "session_file saved_session = Some ''old-session''"
    by (simp add: saved_session_def)
  have b: "load_settings stub_env (calls saved_session) ''old-session'' = None"
    by (simp add: stub_env_def)
  have c: "get_timeline_feed stub_env (calls saved_session @ [Load_settings]) = None"
    by (simp add: stub_env_def)
  have d: "account_info stub_env (calls saved_session @ [Load_settings, Get_timeline_feed]) =
     Inr alice_account"
    by (simp add: stub_env_def)
  from restored_session_login [OF a b c d, of "''alice''" "''wrong''"]
  have r: "InstagramClient_login stub_env ''alice'' ''wrong'' saved_session =
     ((True, None),
      \<lparr>logged_in_user = Some (parse_user alice_account),
       session_file = Some ''old-session'',
       calls = [Load_settings, Get_timeline_feed, Account_info]\<rparr>)"
    by (simp add: saved_session_def)
  show ?thesis
    by (intro conjI) (use a b c d r in simp_all)
qed

text \<open>
  Claim C10. For every login attempt that returns failure, the current Identity after
  the attempt is the one before it: still absent when the attempt started
  unauthenticated, still the previous Identity when it started authenticated.
\<close>

theorem failed_login_keeps_identity:
  assumes "\<not> fst (fst (InstagramClient_login e uname passwd s))"
  shows "logged_in_user (snd (InstagramClient_login e uname passwd s)) = logged_in_user s"
proof (cases "auth_login e uname passwd s")
  case (Pair r s1)
  obtain success error user where r: "r = (success, error, user)"
    by (cases r) auto
  from Pair have "logged_in_user s1 = logged_in_user s"
    using auth_login_user [of e uname passwd s] by simp
  with Pair r assms show ?thesis
    by (simp add: InstagramClient_login_def)
qed

text \<open>
  A wrong password fails from the logged-out state and from the logged-in state, and
  the Identity stays absent in the first and stays the earlier user in the second.
\<close>

theorem failed_login_keeps_identity_witness:
  "\<not> fst (fst (InstagramClient_login stub_env ''alice'' ''wrong'' logged_in)) \<and>
   \<not> fst (fst (InstagramClient_login stub_env ''alice'' ''wrong'' logged_out)) \<and>
   logged_in_user (snd (InstagramClient_login stub_env ''alice'' ''wrong'' logged_in)) =
     Some (parse_user bob_account) \<and>
   logged_in_user (snd (InstagramClient_login stub_env ''alice'' ''wrong'' logged_out)) = None"
proof -
  have a: "\<not> fst (fst (InstagramClient_login stub_env ''alice'' ''wrong'' logged_in))"
    by (simp add: InstagramClient_login_def auth_login_def load_session_def fresh_login_def
        login_failure_def record_call_def logged_in_def stub_env_def)
  have b: "\<not> fst (fst (InstagramClient_login stub_env ''alice'' ''wrong'' logged_out))"
    by (simp add: InstagramClient_login_def auth_login_def load_session_def fresh_login_def
        login_failure_def record_call_def logged_out_def stub_env_def)
  have u: "logged_in_user logged_in = Some (parse_user bob_account)"
    "logged_in_user logged_out = None"
    by (simp_all add: logged_in_def logged_out_def)
  from failed_login_keeps_identity [OF a] failed_login_keeps_identity [OF b] a b u
  show ?thesis by simp
qed

end
